theory Spec2Isabelle
  imports Complex_Main "HOL-Library.List_Lexorder" "HOL-Library.Char_ord" "HOL-Library.Product_Lexorder"
begin

section \<open>Tables\<close>

text \<open>
  The dashboard keeps its data in pandas DataFrames. A cell of a sheet is empty (pandas
  reads it as NaN, and as NaT in a date column), a number, a text or a point in time.
  Numbers are rationals: the rounding of IEEE doubles and the values inf and nan that
  arithmetic can produce are outside the model.
\<close>

datatype cell = NaN | Number rat | Text string | Stamp int

text \<open>
  A frame is its list of column names, in order, and its rows; a row gives the cell
  under each column name. Only the cells under the names of \<open>columns\<close> belong to the
  frame. Header names are texts, and pandas needs them distinct to read or write one column
  by its name (\<open>header_ok\<close> below).
\<close>

type_synonym row = "string \<Rightarrow> cell"

record frame =
  columns :: "string list"
  rows :: "row list"

text \<open>\<^verbatim>\<open>pd.DataFrame()\<close>: no column and no row.\<close>

definition empty_frame :: frame where
  "empty_frame = \<lparr>columns = [], rows = []\<rparr>"

text \<open>\<^verbatim>\<open>df.empty\<close>: one of the two axes has length 0.\<close>

definition df_empty :: "frame \<Rightarrow> bool" where
  "df_empty df \<longleftrightarrow> columns df = [] \<or> rows df = []"

text \<open>\<^verbatim>\<open>df[name]\<close>: the cells of one column, from the first row to the last.\<close>

definition series :: "frame \<Rightarrow> string \<Rightarrow> cell list" where
  "series df name = map (\<lambda>r. r name) (rows df)"

text \<open>\<^verbatim>\<open>df[name] = value\<close>: the column is overwritten where it exists and appended
  as the last column where it does not.\<close>

definition set_column :: "string \<Rightarrow> (row \<Rightarrow> cell) \<Rightarrow> frame \<Rightarrow> frame" where
  "set_column name f df =
     \<lparr>columns = (if name \<in> set (columns df) then columns df else columns df @ [name]),
      rows = map (\<lambda>r. r(name := f r)) (rows df)\<rparr>"

subsection \<open>What the libraries are trusted with\<close>

text \<open>An exception that leaves a function is the left summand of its result.\<close>

datatype error =
  FileNotFoundError | ReadError string | KeyError string | TypeError | ValueError | AttributeError

text \<open>
  pandas parses texts into numbers and dates, words its exceptions and sorts with numpy;
  none of this is part of the repository, and all of it is a parameter of the model.
  \<open>parse_numeric c\<close> is what \<^verbatim>\<open>pd.to_numeric(..., errors="coerce")\<close> makes of a cell
  that is neither empty nor a number (\<open>None\<close>: coerced to NaN); \<open>parse_datetime col c\<close>
  is what \<^verbatim>\<open>pd.to_datetime(..., errors="coerce")\<close> makes of a cell \<open>c\<close> of the column
  \<open>col\<close> that is neither empty nor a point in time (\<open>None\<close>: coerced to NaT; the
  format is guessed from the column). \<open>exception_text e\<close> is \<^verbatim>\<open>str(e)\<close> for an
  exception that pandas raises. \<open>argsort_desc ks\<close> is the order in which
  \<^verbatim>\<open>sort_values(ascending=False)\<close> lists rows of the keys \<open>ks\<close>, as positions of
  \<open>ks\<close>: numpy's quicksort is not stable, and which of two rows of equal keys comes
  first is its choice.
\<close>

record pandas =
  parse_numeric :: "cell \<Rightarrow> rat option"
  parse_datetime :: "cell list \<Rightarrow> cell \<Rightarrow> int option"
  exception_text :: "error \<Rightarrow> string"
  argsort_desc :: "rat list \<Rightarrow> nat list"


text \<open>\<^verbatim>\<open>take(indexer)\<close>: the rows at the positions, in the order of the positions. A
  position that is none of the list, which numpy never returns, is left out.\<close>

definition take_positions :: "nat list \<Rightarrow> 'a list \<Rightarrow> 'a list" where
  "take_positions idx xs = map (\<lambda>i. xs ! i) (filter (\<lambda>i. i < length xs) idx)"

definition to_numeric :: "pandas \<Rightarrow> cell \<Rightarrow> cell" where
  "to_numeric pd c =
     (case c of
        NaN \<Rightarrow> NaN
      | Number x \<Rightarrow> Number x
      | _ \<Rightarrow> (case parse_numeric pd c of None \<Rightarrow> NaN | Some x \<Rightarrow> Number x))"

definition to_datetime :: "pandas \<Rightarrow> cell list \<Rightarrow> cell \<Rightarrow> cell" where
  "to_datetime pd col c =
     (case c of
        NaN \<Rightarrow> NaN
      | Stamp d \<Rightarrow> Stamp d
      | _ \<Rightarrow> (case parse_datetime pd col c of None \<Rightarrow> NaN | Some d \<Rightarrow> Stamp d))"

text \<open>\<^verbatim>\<open>Series.fillna(v)\<close> on one cell.\<close>

definition fillna :: "cell \<Rightarrow> cell \<Rightarrow> cell" where
  "fillna v c = (if c = NaN then v else c)"

text \<open>
  \<^verbatim>\<open>str.strip()\<close>: leading and trailing whitespace removed. A text is the sequence of
  the bytes of its UTF-8 encoding, and \<open>whitespace\<close> lists the encodings of the
  characters that are whitespace for Python: U+0009 to U+000D, U+001C to U+0020, U+0085,
  U+00A0, U+1680, U+2000 to U+200A, U+2028, U+2029, U+202F, U+205F and U+3000.
\<close>

definition whitespace :: "string list" where
  "whitespace =
     map (\<lambda>c. [c]) [CHR 0x09, CHR 0x0A, CHR 0x0B, CHR 0x0C, CHR 0x0D,
                    CHR 0x1C, CHR 0x1D, CHR 0x1E, CHR 0x1F, CHR 0x20] @
     [[CHR 0xC2, CHR 0x85], [CHR 0xC2, CHR 0xA0], [CHR 0xE1, CHR 0x9A, CHR 0x80]] @
     map (\<lambda>c. [CHR 0xE2, CHR 0x80, c])
       [CHR 0x80, CHR 0x81, CHR 0x82, CHR 0x83, CHR 0x84, CHR 0x85, CHR 0x86, CHR 0x87,
        CHR 0x88, CHR 0x89, CHR 0x8A, CHR 0xA8, CHR 0xA9, CHR 0xAF] @
     [[CHR 0xE2, CHR 0x81, CHR 0x9F], [CHR 0xE3, CHR 0x80, CHR 0x80]]"

text \<open>The number of bytes of the whitespace character that a text begins with, and of the
  one that it ends with; 0 when there is none.\<close>

definition leading_space :: "string \<Rightarrow> nat" where
  "leading_space s =
     (case find (\<lambda>w. take (length w) s = w) whitespace of None \<Rightarrow> 0 | Some w \<Rightarrow> length w)"

definition trailing_space :: "string \<Rightarrow> nat" where
  "trailing_space s =
     (case find (\<lambda>w. length w \<le> length s \<and> drop (length s - length w) s = w) whitespace of
        None \<Rightarrow> 0
      | Some w \<Rightarrow> length w)"

function lstrip :: "string \<Rightarrow> string" where
  "lstrip s = (if leading_space s = 0 then s else lstrip (drop (leading_space s) s))"
  by pat_completeness auto
termination
proof (relation "measure length")
  show "wf (measure length)" by simp
next
  fix s :: string
  assume "leading_space s \<noteq> 0"
  moreover have "leading_space [] = 0"
    by (simp add: leading_space_def whitespace_def)
  ultimately have "s \<noteq> []" by auto
  with \<open>leading_space s \<noteq> 0\<close> show "(drop (leading_space s) s, s) \<in> measure length"
    by simp
qed

function rstrip :: "string \<Rightarrow> string" where
  "rstrip s = (if trailing_space s = 0 then s else rstrip (take (length s - trailing_space s) s))"
  by pat_completeness auto
termination
proof (relation "measure length")
  show "wf (measure length)" by simp
next
  fix s :: string
  assume "trailing_space s \<noteq> 0"
  moreover have "trailing_space [] = 0"
    by (simp add: trailing_space_def whitespace_def)
  ultimately have "s \<noteq> []" by auto
  with \<open>trailing_space s \<noteq> 0\<close> show "(take (length s - trailing_space s) s, s) \<in> measure length"
    by simp
qed

definition strip :: "string \<Rightarrow> string" where
  "strip s = rstrip (lstrip s)"

section \<open>Loading: \<^verbatim>\<open>load_all_centers_data\<close> of center_database_v2.py\<close>

text \<open>\<^verbatim>\<open>df.columns = df.columns.str.strip()\<close>: the columns keep their cells and get
  their trimmed names.\<close>

definition strip_columns :: "frame \<Rightarrow> frame" where
  "strip_columns df =
     \<lparr>columns = map strip (columns df),
      rows = map (\<lambda>r name. case find (\<lambda>c. strip c = name) (columns df) of
                                None \<Rightarrow> NaN | Some c \<Rightarrow> r c) (rows df)\<rparr>"

text \<open>The sheet has a header, and the trimmed header names are distinct: each name stands
  for one column.\<close>

definition header_ok :: "frame \<Rightarrow> bool" where
  "header_ok df \<longleftrightarrow> columns df \<noteq> [] \<and> distinct (map strip (columns df))"

text \<open>Create the Centre column: the first of Location Name, Location and Center that is a
  column, else the constant.\<close>

definition resolve_centre :: "frame \<Rightarrow> frame" where
  "resolve_centre df =
     (if ''Location Name'' \<in> set (columns df) then set_column ''Centre'' (\<lambda>r. r ''Location Name'') df
      else if ''Location'' \<in> set (columns df) then set_column ''Centre'' (\<lambda>r. r ''Location'') df
      else if ''Center'' \<in> set (columns df) then set_column ''Centre'' (\<lambda>r. r ''Center'') df
      else set_column ''Centre'' (\<lambda>r. Text ''ICCO'') df)"

text \<open>Create the Program column.\<close>

definition resolve_program :: "frame \<Rightarrow> frame" where
  "resolve_program df =
     (if ''Program Name'' \<in> set (columns df) then set_column ''Program'' (\<lambda>r. r ''Program Name'') df
      else if ''Course Name'' \<in> set (columns df) then set_column ''Program'' (\<lambda>r. r ''Course Name'') df
      else if ''Program'' \<notin> set (columns df) then set_column ''Program'' (\<lambda>r. Text ''Program'') df
      else df)"

text \<open>Handle dates.\<close>

definition handle_dates :: "pandas \<Rightarrow> frame \<Rightarrow> frame" where
  "handle_dates pd df =
     (if ''Date'' \<in> set (columns df)
      then set_column ''Date'' (\<lambda>r. to_datetime pd (series df ''Date'') (r ''Date'')) df
      else df)"

text \<open>Handle participants (if the column does not exist, count as 1 per row).\<close>

definition handle_participants :: "pandas \<Rightarrow> frame \<Rightarrow> frame" where
  "handle_participants pd df =
     (if ''Participants'' \<notin> set (columns df) then set_column ''Participants'' (\<lambda>r. Number 1) df
      else set_column ''Participants'' (\<lambda>r. fillna (Number 1) (to_numeric pd (r ''Participants''))) df)"

text \<open>Handle satisfaction (if the column does not exist, set the neutral 4).\<close>

definition handle_satisfaction :: "pandas \<Rightarrow> frame \<Rightarrow> frame" where
  "handle_satisfaction pd df =
     (if ''Satisfaction'' \<notin> set (columns df) then set_column ''Satisfaction'' (\<lambda>r. Number 4) df
      else set_column ''Satisfaction'' (\<lambda>r. fillna (Number 4) (to_numeric pd (r ''Satisfaction''))) df)"

text \<open>Handle target audience/category.\<close>

definition handle_category :: "frame \<Rightarrow> frame" where
  "handle_category df =
     (if ''Target Audience'' \<in> set (columns df) then set_column ''Category'' (\<lambda>r. r ''Target Audience'') df
      else if ''Category'' \<notin> set (columns df) then set_column ''Category'' (\<lambda>r. Text ''General'') df
      else df)"

text \<open>\<^verbatim>\<open>df.dropna(how="all")\<close>: a row is removed when every cell of it is missing.\<close>

definition dropna_all :: "frame \<Rightarrow> frame" where
  "dropna_all df = df\<lparr>rows := filter (\<lambda>r. \<not> list_all (\<lambda>c. r c = NaN) (columns df)) (rows df)\<rparr>"

text \<open>The body of the \<^verbatim>\<open>try\<close> block after the sheet is read, in the order of the
  source.\<close>

definition normalize_table :: "pandas \<Rightarrow> frame \<Rightarrow> frame" where
  "normalize_table pd df =
     dropna_all (handle_category (handle_satisfaction pd (handle_participants pd
       (handle_dates pd (resolve_program (resolve_centre (strip_columns df)))))))"

text \<open>
  What the body of the \<^verbatim>\<open>try\<close> block raises on a sheet, if anything; the frame of
  \<open>normalize_table\<close> is its result when it raises nothing.
  \<^item> A sheet without any cell has no header of texts, and \<^verbatim>\<open>df.columns.str\<close> raises
    AttributeError.
  \<^item> Trimming can give several columns one name. \<^verbatim>\<open>df[name]\<close> is then a frame and not
    a series: \<^verbatim>\<open>df[target] = df[source]\<close> raises ValueError unless the target stands
    for as many columns as the source, \<^verbatim>\<open>pd.to_datetime\<close> raises ValueError,
    \<^verbatim>\<open>pd.to_numeric\<close> raises TypeError, and a frame has no \<^verbatim>\<open>unique()\<close> for the
    success message, which is an AttributeError.
  Where nothing is raised although a name stands for several columns, a row of the model
  shows under that name the cell of the first of them.
\<close>

definition copy_raises :: "string \<Rightarrow> string list \<Rightarrow> frame \<Rightarrow> bool" where
  "copy_raises target sources df =
     (case find (\<lambda>s. s \<in> set (columns df)) sources of
        None \<Rightarrow> False
      | Some s \<Rightarrow> 1 < count_list (columns df) s \<and>
                  count_list (columns df) target \<noteq> count_list (columns df) s)"

definition normalize_raises :: "frame \<Rightarrow> error option" where
  "normalize_raises raw =
     (let df = strip_columns raw in
      if columns raw = [] then Some AttributeError
      else if copy_raises ''Centre'' [''Location Name'', ''Location'', ''Center''] df then Some ValueError
      else if copy_raises ''Program'' [''Program Name'', ''Course Name''] df then Some ValueError
      else if 1 < count_list (columns df) ''Date'' then Some ValueError
      else if 1 < count_list (columns df) ''Participants'' then Some TypeError
      else if 1 < count_list (columns df) ''Satisfaction'' then Some TypeError
      else if copy_raises ''Category'' [''Target Audience''] df then Some ValueError
      else if 1 < count_list (columns df) ''Centre'' then Some AttributeError
      else None)"

text \<open>
  What \<^verbatim>\<open>pd.read_excel\<close> finds under the path: no file, a file it cannot parse (with
  the text of the exception), or the first sheet as a frame. What streamlit shows is a list
  of notices.
\<close>

datatype excel = FileMissing | Unreadable string | Sheet frame

datatype notice =
  SuccessMsg nat nat | ErrorMsg string | InfoMsg string | WarningMsg string

definition DATA_PATH :: string where
  "DATA_PATH = ''data/MAC_ICCO_Programs_Database_2025.xlsx''"

definition load_all_centers_data :: "pandas \<Rightarrow> excel \<Rightarrow> error + frame \<times> notice list" where
  "load_all_centers_data pd file =
     (case file of
        Sheet raw \<Rightarrow>
          (case normalize_raises raw of
             Some e \<Rightarrow> Inr (empty_frame, [ErrorMsg (''Error loading file: '' @ exception_text pd e)])
           | None \<Rightarrow>
               (let df = normalize_table pd raw
                in Inr (df, [SuccessMsg (length (rows df))
                               (length (remdups (map (\<lambda>r. r ''Centre'') (rows df))))])))
      | FileMissing \<Rightarrow>
          Inr (empty_frame,
               [ErrorMsg (''File not found: '' @ DATA_PATH),
                InfoMsg (''Place your Excel file in: '' @ DATA_PATH)])
      | Unreadable e \<Rightarrow>
          Inr (empty_frame, [ErrorMsg (''Error loading file: '' @ e)]))"

section \<open>Analysis: the functions of center_database_v2.py that read the loaded frame\<close>

text \<open>
  \<^verbatim>\<open>df[name]\<close> raises KeyError for a name that is no column. A sum, a mean or a
  comparison with a number is computed on a column of floats; on a column that holds a text
  or a point in time pandas raises or computes no number, which is the error TypeError
  here. The loader leaves the columns Participants and Satisfaction as columns of floats
  (\<open>canonical_normalize_table\<close> below).
\<close>

definition column :: "frame \<Rightarrow> string \<Rightarrow> error + cell list" where
  "column df name = (if name \<in> set (columns df) then Inr (series df name) else Inl (KeyError name))"

definition is_float :: "cell \<Rightarrow> bool" where
  "is_float c = (case c of NaN \<Rightarrow> True | Number x \<Rightarrow> True | _ \<Rightarrow> False)"

definition numeric_column :: "frame \<Rightarrow> string \<Rightarrow> error + cell list" where
  "numeric_column df name =
     (case column df name of
        Inl e \<Rightarrow> Inl e
      | Inr cs \<Rightarrow> if list_all is_float cs then Inr cs else Inl TypeError)"

text \<open>The numbers of a column of floats; sums and means skip NaN.\<close>

fun floats :: "cell list \<Rightarrow> rat list" where
  "floats [] = []"
| "floats (Number x # cs) = x # floats cs"
| "floats (c # cs) = floats cs"

text \<open>\<^verbatim>\<open>Series.sum()\<close>: 0 for a series with no number.\<close>

definition nansum :: "cell list \<Rightarrow> rat" where
  "nansum cs = sum_list (floats cs)"

text \<open>\<^verbatim>\<open>Series.mean()\<close>: NaN for a series with no number.\<close>

definition nanmean :: "cell list \<Rightarrow> cell" where
  "nanmean cs =
     (if floats cs = [] then NaN else Number (sum_list (floats cs) / of_nat (length (floats cs))))"

text \<open>\<^verbatim>\<open>Series.unique()\<close>: the distinct cells in the order of their first appearance.\<close>

fun unique :: "cell list \<Rightarrow> cell list" where
  "unique [] = []"
| "unique (c # cs) = c # filter (\<lambda>d. d \<noteq> c) (unique cs)"



subsection \<open>\<^verbatim>\<open>calculate_metrics\<close>\<close>



subsection \<open>Grouping\<close>

text \<open>
  \<^verbatim>\<open>df.groupby(key).agg({'Participants': 'sum', 'Satisfaction': 'mean'})\<close>: one group
  for each key that is not missing, the groups in ascending order of their keys (numbers
  before texts, texts by their code points).
\<close>

record group =
  g_key :: cell
  g_participants :: rat
  g_satisfaction :: cell

definition key_rank :: "cell \<Rightarrow> nat \<times> rat \<times> string" where
  "key_rank c =
     (case c of
        Number x \<Rightarrow> (0, x, [])
      | Stamp d \<Rightarrow> (1, of_int d, [])
      | Text s \<Rightarrow> (2, 0, s)
      | NaN \<Rightarrow> (3, 0, []))"

definition group_keys :: "cell list \<Rightarrow> cell list" where
  "group_keys ks = sort_key key_rank (unique (filter (\<lambda>k. k \<noteq> NaN) ks))"

definition groupby_agg :: "string \<Rightarrow> frame \<Rightarrow> error + group list" where
  "groupby_agg key df =
     (case column df key of Inl e \<Rightarrow> Inl e | Inr ks \<Rightarrow>
     (case numeric_column df ''Participants'' of Inl e \<Rightarrow> Inl e | Inr ps \<Rightarrow>
     (case numeric_column df ''Satisfaction'' of Inl e \<Rightarrow> Inl e | Inr ss \<Rightarrow>
        Inr (map (\<lambda>k. \<lparr>g_key = k,
                        g_participants = nansum (map (\<lambda>r. r ''Participants'') (filter (\<lambda>r. r key = k) (rows df))),
                        g_satisfaction = nanmean (map (\<lambda>r. r ''Satisfaction'') (filter (\<lambda>r. r key = k) (rows df)))\<rparr>)
                 (group_keys ks)))))"

text \<open>The cells of the row that the table shows for a group: its key, which is the index
  of the table, its sum and its mean.\<close>

definition table_row :: "group \<Rightarrow> cell list" where
  "table_row g = [g_key g, Number (g_participants g), g_satisfaction g]"

text \<open>
  \<^verbatim>\<open>.sort_values('Participants', ascending=False)\<close>: the groups in descending order
  of their sums, in the order that numpy's sort gives them.
\<close>

definition sort_values_desc :: "pandas \<Rightarrow> 'a group_scheme list \<Rightarrow> 'a group_scheme list" where
  "sort_values_desc pd gs = take_positions (argsort_desc pd (map g_participants gs)) gs"

text \<open>The table Program Performance of the Analytics tab.\<close>

definition program_perf :: "pandas \<Rightarrow> frame \<Rightarrow> error + group list" where
  "program_perf pd df_centre =
     (case groupby_agg ''Program'' df_centre of
        Inl e \<Rightarrow> Inl e
      | Inr gs \<Rightarrow> Inr (take 10 (sort_values_desc pd gs)))"



text \<open>\<^verbatim>\<open>Series.value_counts()\<close>: each cell that is not missing with the number of its
  occurrences, sorted by that number in descending order with the same sort.\<close>

definition value_counts :: "pandas \<Rightarrow> cell list \<Rightarrow> (cell \<times> nat) list" where
  "value_counts pd cs =
     (let counts = map (\<lambda>k. (k, count_list cs k)) (unique (filter (\<lambda>c. c \<noteq> NaN) cs))
      in take_positions (argsort_desc pd (map (\<lambda>kn. of_nat (snd kn)) counts)) counts)"

text \<open>\<^verbatim>\<open>create_program_distribution\<close>: the bars that the figure draws.\<close>

definition create_program_distribution :: "pandas \<Rightarrow> frame \<Rightarrow> error + (cell \<times> nat) list" where
  "create_program_distribution pd df =
     (if df_empty df then Inr []
      else (case column df ''Program'' of
              Inl e \<Rightarrow> Inl e
            | Inr progs \<Rightarrow> Inr (take 10 (value_counts pd progs))))"

subsection \<open>The filters of the Raw Data tab\<close>

text \<open>\<^verbatim>\<open>df_all[df_all['Centre'] == selected_centre]\<close>.\<close>

definition select_centre :: "cell \<Rightarrow> frame \<Rightarrow> error + frame" where
  "select_centre selected_centre df_all =
     (case column df_all ''Centre'' of
        Inl e \<Rightarrow> Inl e
      | Inr cs \<Rightarrow> Inr (df_all\<lparr>rows := filter (\<lambda>r. r ''Centre'' = selected_centre) (rows df_all)\<rparr>))"



section \<open>Loading in center_database.py\<close>

text \<open>
  \<^verbatim>\<open>generate_sample_center_data\<close> draws 500 rows with numpy's generator, seeded with
  42. The values it draws are a parameter: \<open>drawn name i\<close> is the cell of row \<open>i\<close>
  under the column \<open>name\<close>. The column Notes repeats five texts, and the rows are sorted
  by their dates.
\<close>

definition date_key :: "cell \<Rightarrow> int" where
  "date_key c = (case c of Stamp d \<Rightarrow> d | _ \<Rightarrow> 0)"

definition sample_notes :: "string list" where
  "sample_notes = [''Good engagement'', ''High participation'', ''Good feedback'',
                   ''Excellent turnout'', ''Need improvement'']"

definition sample_columns :: "string list" where
  "sample_columns = [''Date'', ''Program'', ''Participants'', ''Satisfaction'', ''Category'',
                     ''Attendance_Rate'', ''Feedback_Score'', ''Notes'']"

definition generate_sample_center_data :: "(string \<Rightarrow> nat \<Rightarrow> cell) \<Rightarrow> string \<Rightarrow> frame" where
  "generate_sample_center_data drawn center_name =
     \<lparr>columns = sample_columns,
      rows = sort_key (\<lambda>r. date_key (r ''Date''))
               (map (\<lambda>i name. if name = ''Notes'' then Text (sample_notes ! (i mod 5))
                               else if name \<in> set sample_columns then drawn name i
                               else NaN)
                  [0..<500])\<rparr>"

definition load_center_data ::
  "(string \<Rightarrow> nat \<Rightarrow> cell) \<Rightarrow> string \<Rightarrow> excel \<Rightarrow> error + frame \<times> notice list" where
  "load_center_data drawn center_name file =
     (case file of
        Sheet df \<Rightarrow> Inr (df, [])
      | FileMissing \<Rightarrow>
          Inr (generate_sample_center_data drawn center_name,
               [WarningMsg (''Excel file for '' @ center_name @
                            '' not found. Using sample data for demo.'')])
      | Unreadable e \<Rightarrow> Inl (ReadError e))"



section \<open>Canonical records\<close>

text \<open>
  The frame of canonical records that the analysis reads: the five columns are there, and
  Participants and Satisfaction hold numbers.
\<close>

definition is_number :: "cell \<Rightarrow> bool" where
  "is_number c = (case c of Number x \<Rightarrow> True | _ \<Rightarrow> False)"

definition canonical :: "frame \<Rightarrow> bool" where
  "canonical df \<longleftrightarrow>
     list_all (\<lambda>name. name \<in> set (columns df))
       [''Centre'', ''Program'', ''Participants'', ''Satisfaction'', ''Category''] \<and>
     list_all is_number (series df ''Participants'') \<and>
     list_all is_number (series df ''Satisfaction'')"

section \<open>Example sheets\<close>

text \<open>A row written as the list of its cells that are not empty.\<close>

definition row_of :: "(string \<times> cell) list \<Rightarrow> row" where
  "row_of kvs name = (case map_of kvs name of None \<Rightarrow> NaN | Some c \<Rightarrow> c)"

text \<open>
  The library for the examples: a text of decimal digits is the number it writes and any
  other text is no number; the examples have no column of dates; the text of an exception
  is its name; the sort is a stable one, and the examples that are sorted have no two
  equal keys where the order is stated.
\<close>

definition stable_argsort :: "rat list \<Rightarrow> nat list" where
  "stable_argsort ks = sort_key (\<lambda>i. - (ks ! i)) [0..<length ks]"

definition exception_name :: "error \<Rightarrow> string" where
  "exception_name e =
     (case e of
        FileNotFoundError \<Rightarrow> ''FileNotFoundError'' | ReadError m \<Rightarrow> m | KeyError k \<Rightarrow> k
      | TypeError \<Rightarrow> ''TypeError'' | ValueError \<Rightarrow> ''ValueError''
      | AttributeError \<Rightarrow> ''AttributeError'')"

definition decimal :: "string \<Rightarrow> rat option" where
  "decimal s =
     (if s \<noteq> [] \<and> list_all (\<lambda>c. 48 \<le> (of_char c :: nat) \<and> (of_char c :: nat) \<le> 57) s
      then Some (of_nat (foldl (\<lambda>n c. 10 * n + (of_char c - 48)) 0 s))
      else None)"

definition plain_pandas :: pandas where
  "plain_pandas =
     \<lparr>parse_numeric = (\<lambda>c. case c of Text s \<Rightarrow> decimal s | _ \<Rightarrow> None),
      parse_datetime = (\<lambda>col c. None),
      exception_text = exception_name,
      argsort_desc = stable_argsort\<rparr>"

text \<open>The two rows of the end-to-end example of the specification.\<close>

definition sheet_quran :: frame where
  "sheet_quran =
     \<lparr>columns = [''Location'', ''Program'', ''Participants'', ''Satisfaction''],
      rows = [row_of [(''Location'', Text ''A''), (''Program'', Text ''Quran Classes''),
                      (''Participants'', Number 10), (''Satisfaction'', Number 5)],
              row_of [(''Location'', Text ''A''), (''Program'', Text ''Quran Classes'')]]\<rparr>"

text \<open>A sheet with both location columns, the header padded with blanks.\<close>

definition sheet_locations :: frame where
  "sheet_locations =
     \<lparr>columns = ['' Location'', ''Location Name  ''],
      rows = [row_of [('' Location'', Text ''Y''), (''Location Name  '', Text ''X'')]]\<rparr>"

text \<open>A sheet with Location and Center, one with Center only; the name Center is followed
  by a no-break space, U+00A0.\<close>

definition sheet_location_center :: frame where
  "sheet_location_center =
     \<lparr>columns = [''Center'', ''Location''],
      rows = [row_of [(''Center'', Text ''Z''), (''Location'', Text ''Y'')]]\<rparr>"

definition sheet_center :: frame where
  "sheet_center =
     \<lparr>columns = [''Center'' @ [CHR 0xC2, CHR 0xA0], ''Program''],
      rows = [row_of [(''Center'' @ [CHR 0xC2, CHR 0xA0], Text ''Z''),
                      (''Program'', Text ''Youth Circle'')]]\<rparr>"

text \<open>A sheet whose column of head counts has a no-break space after its name.\<close>

definition sheet_padded :: frame where
  "sheet_padded =
     \<lparr>columns = [''Program'', ''Participants'' @ [CHR 0xC2, CHR 0xA0]],
      rows = [row_of [(''Program'', Text ''Youth Circle''),
                      (''Participants'' @ [CHR 0xC2, CHR 0xA0], Number 10)]]\<rparr>"

text \<open>A sheet without any cell, and a sheet with two columns that are both named Location
  after trimming.\<close>

definition sheet_no_cells :: frame where
  "sheet_no_cells = \<lparr>columns = [], rows = []\<rparr>"

definition sheet_colliding :: frame where
  "sheet_colliding =
     \<lparr>columns = [''Location'', ''Location ''],
      rows = [row_of [(''Location'', Text ''A''), (''Location '', Text ''B'')]]\<rparr>"

text \<open>Ratings: out of the scale, no number, empty, and zero.\<close>

definition sheet_ratings :: frame where
  "sheet_ratings =
     \<lparr>columns = [''Program'', ''Satisfaction''],
      rows = [row_of [(''Program'', Text ''Youth Circle''), (''Satisfaction'', Number 7)],
              row_of [(''Program'', Text ''Youth Circle''), (''Satisfaction'', Text ''n/a'')],
              row_of [(''Program'', Text ''Youth Circle'')],
              row_of [(''Program'', Text ''Youth Circle''), (''Satisfaction'', Number 0)]]\<rparr>"

text \<open>Head counts: negative, fractional, no number, and empty.\<close>

definition sheet_counts :: frame where
  "sheet_counts =
     \<lparr>columns = [''Program'', ''Participants''],
      rows = [row_of [(''Program'', Text ''Youth Circle''), (''Participants'', Number (- 3))],
              row_of [(''Program'', Text ''Youth Circle''), (''Participants'', Number (5 / 2))],
              row_of [(''Program'', Text ''Youth Circle''), (''Participants'', Text ''many'')],
              row_of [(''Program'', Text ''Youth Circle'')]]\<rparr>"

text \<open>A sheet whose second row, between two rows of data, is blank.\<close>

definition sheet_blank_row :: frame where
  "sheet_blank_row =
     \<lparr>columns = [''Location'', ''Program''],
      rows = [row_of [(''Location'', Text ''A''), (''Program'', Text ''Quran Classes'')],
              row_of [],
              row_of [(''Location'', Text ''A''), (''Program'', Text ''Youth Circle'')]]\<rparr>"

text \<open>Values that the generator may draw: the day of the year that is the number of the
  row, and a 5 in every other column.\<close>

definition demo_draws :: "string \<Rightarrow> nat \<Rightarrow> cell" where
  "demo_draws name i = (if name = ''Date'' then Stamp (int (i mod 366)) else Number 5)"

text \<open>A sheet whose only row names no target audience.\<close>

definition sheet_audience :: frame where
  "sheet_audience =
     \<lparr>columns = [''Program'', ''Target Audience''],
      rows = [row_of [(''Program'', Text ''Youth Circle'')]]\<rparr>"

text \<open>Frames of canonical records: one record, written by its five cells.\<close>

definition record_row :: "string \<Rightarrow> string \<Rightarrow> rat \<Rightarrow> rat \<Rightarrow> string \<Rightarrow> row" where
  "record_row centre program participants satisfaction category =
     row_of [(''Centre'', Text centre), (''Program'', Text program),
             (''Participants'', Number participants), (''Satisfaction'', Number satisfaction),
             (''Category'', Text category)]"

definition record_columns :: "string list" where
  "record_columns = [''Centre'', ''Program'', ''Participants'', ''Satisfaction'', ''Category'']"


text \<open>Four records of three programs; the first two are the records of the end-to-end
  example of the specification.\<close>

definition records_demo :: frame where
  "records_demo =
     \<lparr>columns = record_columns,
      rows = [record_row ''A'' ''Quran Classes'' 10 5 ''Adults'',
              record_row ''A'' ''Quran Classes'' 1 4 ''General'',
              record_row ''A'' ''Youth Circle'' 30 3 ''Youth'',
              record_row ''A'' ''Sisters Halaqa'' 20 5 ''Adults'']\<rparr>"



section \<open>Loading keeps every row\<close>

lemma rows_set_column [simp]:
  "rows (set_column name f df) = map (\<lambda>r. r(name := f r)) (rows df)"
  by (simp add: set_column_def)

lemma columns_set_column [simp]:
  "set (columns (set_column name f df)) = insert name (set (columns df))"
  by (auto simp: set_column_def)

lemma series_set_column:
  "series (set_column name f df) m = (if m = name then map f (rows df) else series df m)"
  by (simp add: series_def set_column_def)

lemma length_series [simp]: "length (series df name) = length (rows df)"
  by (simp add: series_def)

lemma dropna_all_id:
  assumes "c \<in> set (columns df)" "NaN \<notin> set (series df c)"
  shows "dropna_all df = df"
proof -
  have "\<not> list_all (\<lambda>c. r c = NaN) (columns df)" if "r \<in> set (rows df)" for r
  proof -
    from that have "r c \<in> set (series df c)" by (simp add: series_def)
    with assms(2) have "r c \<noteq> NaN" by metis
    with assms(1) show ?thesis by (auto simp: list_all_iff)
  qed
  then show ?thesis by (simp add: dropna_all_def)
qed

lemma series_resolve_centre:
  "m \<noteq> ''Centre'' \<Longrightarrow> series (resolve_centre df) m = series df m"
  by (simp add: resolve_centre_def series_set_column)

lemma series_resolve_program:
  "m \<noteq> ''Program'' \<Longrightarrow> series (resolve_program df) m = series df m"
  by (simp add: resolve_program_def series_set_column)

lemma series_handle_dates:
  "m \<noteq> ''Date'' \<Longrightarrow> series (handle_dates pd df) m = series df m"
  by (simp add: handle_dates_def series_set_column)

lemma series_handle_participants:
  "m \<noteq> ''Participants'' \<Longrightarrow> series (handle_participants pd df) m = series df m"
  by (simp add: handle_participants_def series_set_column)

lemma series_handle_satisfaction:
  "m \<noteq> ''Satisfaction'' \<Longrightarrow> series (handle_satisfaction pd df) m = series df m"
  by (simp add: handle_satisfaction_def series_set_column)

lemma series_handle_category:
  "m \<noteq> ''Category'' \<Longrightarrow> series (handle_category df) m = series df m"
  by (simp add: handle_category_def series_set_column)

lemma columns_resolve_centre: "set (columns (resolve_centre df)) = insert ''Centre'' (set (columns df))"
  by (simp add: resolve_centre_def)

lemma columns_resolve_program: "set (columns (resolve_program df)) = insert ''Program'' (set (columns df))"
  by (auto simp: resolve_program_def)

lemma columns_handle_dates: "set (columns (handle_dates pd df)) = set (columns df)"
  by (auto simp: handle_dates_def)

lemma columns_handle_participants: "set (columns (handle_participants pd df)) = insert ''Participants'' (set (columns df))"
  by (auto simp: handle_participants_def)

lemma columns_handle_satisfaction: "set (columns (handle_satisfaction pd df)) = insert ''Satisfaction'' (set (columns df))"
  by (auto simp: handle_satisfaction_def)

lemma columns_handle_category: "set (columns (handle_category df)) = insert ''Category'' (set (columns df))"
  by (auto simp: handle_category_def)

lemmas columns_steps = columns_resolve_centre columns_resolve_program columns_handle_dates
  columns_handle_participants columns_handle_satisfaction columns_handle_category

lemmas series_steps = series_resolve_centre series_resolve_program series_handle_dates
  series_handle_participants series_handle_satisfaction series_handle_category

lemma fillna_not_NaN: "v \<noteq> NaN \<Longrightarrow> fillna v c \<noteq> NaN"
  by (simp add: fillna_def)

lemma participants_filled: "NaN \<notin> set (series (handle_participants pd df) ''Participants'')"
  by (auto simp: handle_participants_def series_set_column fillna_def)

lemma normalize_drops_nothing:
  "normalize_table pd df = handle_category (handle_satisfaction pd (handle_participants pd
       (handle_dates pd (resolve_program (resolve_centre (strip_columns df))))))"
  unfolding normalize_table_def
  by (rule dropna_all_id[where c = "''Participants''"])
     (simp_all add: columns_steps series_steps participants_filled)


lemma series_map: "map (\<lambda>r. g (r m)) (rows df) = map g (series df m)"
  by (simp add: series_def)

lemma length_rows_set_column [simp]: "length (rows (set_column n f df)) = length (rows df)"
  by simp

lemma length_rows_strip [simp]: "length (rows (strip_columns df)) = length (rows df)"
  by (simp add: strip_columns_def)

lemma length_rows_resolve_centre [simp]: "length (rows (resolve_centre df)) = length (rows df)"
  by (simp add: resolve_centre_def)

lemma length_rows_resolve_program [simp]: "length (rows (resolve_program df)) = length (rows df)"
  by (simp add: resolve_program_def)

lemma length_rows_handle_dates [simp]: "length (rows (handle_dates pd df)) = length (rows df)"
  by (simp add: handle_dates_def)

lemma length_rows_handle_participants [simp]: "length (rows (handle_participants pd df)) = length (rows df)"
  by (simp add: handle_participants_def)

lemma length_rows_handle_satisfaction [simp]: "length (rows (handle_satisfaction pd df)) = length (rows df)"
  by (simp add: handle_satisfaction_def)

lemma length_rows_handle_category [simp]: "length (rows (handle_category df)) = length (rows df)"
  by (simp add: handle_category_def)

lemma length_rows_normalize: "length (rows (normalize_table pd df)) = length (rows df)"
  by (simp add: normalize_drops_nothing)

lemma count_list_distinct: "distinct xs \<Longrightarrow> count_list xs x \<le> 1"
  by (induction xs) (auto simp: count_list_0_iff)

lemma normalize_raises_None:
  assumes "header_ok raw"
  shows "normalize_raises raw = None"
proof -
  have "distinct (columns (strip_columns raw))"
    using assms by (simp add: header_ok_def strip_columns_def)
  then have "\<not> 1 < count_list (columns (strip_columns raw)) x" for x
    using count_list_distinct [of "columns (strip_columns raw)" x] by simp
  moreover have "columns raw \<noteq> []"
    using assms by (simp add: header_ok_def)
  ultimately show ?thesis
    by (simp add: normalize_raises_def copy_raises_def Let_def split: option.splits)
qed

lemma load_sheet:
  assumes "header_ok raw"
  shows "load_all_centers_data pd (Sheet raw) =
     Inr (normalize_table pd raw,
          [SuccessMsg (length (rows raw)) (length (remdups (series (normalize_table pd raw) ''Centre'')))])"
  by (simp add: load_all_centers_data_def normalize_raises_None [OF assms] Let_def
      length_rows_normalize series_def)

lemma series_normalize_centre:
  "series (normalize_table pd t) ''Centre'' = series (resolve_centre (strip_columns t)) ''Centre''"
  by (simp add: normalize_drops_nothing series_steps)

section \<open>The columns of the loaded frame\<close>

lemma series_id: "map (\<lambda>r. r m) (rows df) = series df m"
  by (simp add: series_def)

lemma series_normalize_centre_eq:
  "series (normalize_table pd t) ''Centre'' =
     (if ''Location Name'' \<in> set (columns (strip_columns t)) then series (strip_columns t) ''Location Name''
      else if ''Location'' \<in> set (columns (strip_columns t)) then series (strip_columns t) ''Location''
      else if ''Center'' \<in> set (columns (strip_columns t)) then series (strip_columns t) ''Center''
      else replicate (length (rows t)) (Text ''ICCO''))"
  by (simp add: series_normalize_centre resolve_centre_def series_set_column series_id map_replicate_const)

lemma series_normalize_program_eq:
  "series (normalize_table pd t) ''Program'' =
     (if ''Program Name'' \<in> set (columns (strip_columns t)) then series (strip_columns t) ''Program Name''
      else if ''Course Name'' \<in> set (columns (strip_columns t)) then series (strip_columns t) ''Course Name''
      else if ''Program'' \<notin> set (columns (strip_columns t)) then replicate (length (rows t)) (Text ''Program'')
      else series (strip_columns t) ''Program'')"
proof -
  have "series (normalize_table pd t) ''Program'' =
        series (resolve_program (resolve_centre (strip_columns t))) ''Program''"
    by (simp add: normalize_drops_nothing series_steps)
  then show ?thesis
    by (simp add: resolve_program_def series_set_column series_id map_replicate_const
        columns_steps series_steps)
qed

lemma series_normalize_participants_eq:
  "series (normalize_table pd t) ''Participants'' =
     (if ''Participants'' \<notin> set (columns (strip_columns t)) then replicate (length (rows t)) (Number 1)
      else map (\<lambda>c. fillna (Number 1) (to_numeric pd c)) (series (strip_columns t) ''Participants''))"
proof -
  have "series (normalize_table pd t) ''Participants'' =
        series (handle_participants pd (handle_dates pd (resolve_program (resolve_centre (strip_columns t))))) ''Participants''"
    by (simp add: normalize_drops_nothing series_steps)
  then show ?thesis
    by (simp add: handle_participants_def series_set_column map_replicate_const
        series_map[of "\<lambda>c. fillna (Number 1) (to_numeric pd c)" "''Participants''"]
        columns_steps series_steps)
qed

lemma series_normalize_satisfaction_eq:
  "series (normalize_table pd t) ''Satisfaction'' =
     (if ''Satisfaction'' \<notin> set (columns (strip_columns t)) then replicate (length (rows t)) (Number 4)
      else map (\<lambda>c. fillna (Number 4) (to_numeric pd c)) (series (strip_columns t) ''Satisfaction''))"
proof -
  have "series (normalize_table pd t) ''Satisfaction'' =
        series (handle_satisfaction pd (handle_participants pd (handle_dates pd
          (resolve_program (resolve_centre (strip_columns t)))))) ''Satisfaction''"
    by (simp add: normalize_drops_nothing series_steps)
  then show ?thesis
    by (simp add: handle_satisfaction_def series_set_column map_replicate_const
        series_map[of "\<lambda>c. fillna (Number 4) (to_numeric pd c)" "''Satisfaction''"]
        columns_steps series_steps)
qed

lemma series_normalize_category_eq:
  "series (normalize_table pd t) ''Category'' =
     (if ''Target Audience'' \<in> set (columns (strip_columns t)) then series (strip_columns t) ''Target Audience''
      else if ''Category'' \<notin> set (columns (strip_columns t)) then replicate (length (rows t)) (Text ''General'')
      else series (strip_columns t) ''Category'')"
proof -
  have "series (normalize_table pd t) ''Category'' =
        series (handle_category (handle_satisfaction pd (handle_participants pd (handle_dates pd
          (resolve_program (resolve_centre (strip_columns t))))))) ''Category''"
    by (simp add: normalize_drops_nothing)
  then show ?thesis
    by (simp add: handle_category_def series_set_column series_id map_replicate_const
        columns_steps series_steps)
qed

lemma columns_normalize:
  "set (columns (normalize_table pd t)) =
     {''Centre'', ''Program'', ''Participants'', ''Satisfaction'', ''Category''} \<union> set (columns (strip_columns t))"
  by (auto simp: normalize_drops_nothing columns_steps)

section \<open>The loaded frame is canonical\<close>

lemma filled_numeric:
  "fillna (Number d) (to_numeric pd c) = (case to_numeric pd c of Number x \<Rightarrow> Number x | _ \<Rightarrow> Number d)"
  by (simp add: fillna_def to_numeric_def split: cell.splits option.splits)

lemma filled_is_number: "is_number (fillna (Number d) (to_numeric pd c))"
  by (simp add: fillna_def to_numeric_def is_number_def split: cell.splits option.splits)

lemma is_number_Number [simp]: "is_number (Number x)"
  by (simp add: is_number_def)

lemma length_remdups_replicate:
  "length (remdups (replicate n x)) = (if n = 0 then 0 else 1)"
  by (induction n) auto

lemma normalize_numbers:
  "list_all is_number (series (normalize_table pd t) ''Participants'')"
  "list_all is_number (series (normalize_table pd t) ''Satisfaction'')"
  by (simp_all add: series_normalize_participants_eq series_normalize_satisfaction_eq
      list_all_iff filled_is_number)

lemma canonical_normalize_table: "canonical (normalize_table pd t)"
  by (simp add: canonical_def columns_normalize normalize_numbers)

lemma length_generate_sample:
  "length (rows (generate_sample_center_data drawn center_name)) = 500"
  by (simp add: generate_sample_center_data_def)

lemma generate_sample_not_empty: "\<not> df_empty (generate_sample_center_data drawn center_name)"
proof -
  have "rows (generate_sample_center_data drawn center_name) \<noteq> []"
    using length_generate_sample [of drawn center_name] by auto
  moreover have "columns (generate_sample_center_data drawn center_name) \<noteq> []"
    by (simp add: generate_sample_center_data_def sample_columns_def)
  ultimately show ?thesis by (simp add: df_empty_def)
qed

section \<open>The analysis of a canonical frame raises nothing\<close>







lemma take_positions_Nil [simp]: "take_positions idx [] = []"
  by (simp add: take_positions_def)







lemma sort_values_desc_Nil [simp]: "sort_values_desc pd [] = []"
  by (simp add: sort_values_desc_def)


lemma value_counts_Nil [simp]: "value_counts pd [] = []"
  by (simp add: value_counts_def)


lemma canonical_select_rows:
  "canonical df \<Longrightarrow> canonical (df\<lparr>rows := filter P (rows df)\<rparr>)"
  by (auto simp: canonical_def series_def list_all_iff)











section \<open>The example sheets, evaluated\<close>

lemma ratings_header: "header_ok sheet_ratings"
  by code_simp

lemma ratings_columns: "columns (strip_columns sheet_ratings) = [''Program'', ''Satisfaction'']"
  by code_simp

lemma ratings_satisfaction:
  "series (strip_columns sheet_ratings) ''Satisfaction'' = [Number 7, Text ''n/a'', NaN, Number 0]"
  by code_simp

lemma ratings_rows: "length (rows sheet_ratings) = 4"
  by (simp add: sheet_ratings_def)

lemma plain_not_a_number: "to_numeric plain_pandas (Text ''n/a'') = NaN"
  by code_simp

lemma to_numeric_simps:
  "to_numeric pd NaN = NaN" "to_numeric pd (Number x) = Number x"
  by (simp_all add: to_numeric_def)

lemma counts_header: "header_ok sheet_counts"
  by code_simp

lemma counts_columns: "columns (strip_columns sheet_counts) = [''Program'', ''Participants'']"
  by code_simp

lemma counts_participants:
  "series (strip_columns sheet_counts) ''Participants'' =
     [Number (- 3), Number (5 / 2), Text ''many'', NaN]"
  by code_simp

lemma counts_rows: "length (rows sheet_counts) = 4"
  by (simp add: sheet_counts_def)

lemma plain_many: "to_numeric plain_pandas (Text ''many'') = NaN"
  by code_simp

lemma audience_header: "header_ok sheet_audience"
  by code_simp

lemma audience_columns: "columns (strip_columns sheet_audience) = [''Program'', ''Target Audience'']"
  by code_simp

lemma audience_program: "series (strip_columns sheet_audience) ''Program'' = [Text ''Youth Circle'']"
  by code_simp

lemma audience_target: "series (strip_columns sheet_audience) ''Target Audience'' = [NaN]"
  by code_simp

lemma audience_rows: "length (rows sheet_audience) = 1"
  by (simp add: sheet_audience_def)

lemma blank_header: "header_ok sheet_blank_row"
  by code_simp

lemma blank_columns: "columns (strip_columns sheet_blank_row) = [''Location'', ''Program'']"
  by code_simp

lemma blank_location: "series (strip_columns sheet_blank_row) ''Location'' = [Text ''A'', NaN, Text ''A'']"
  by code_simp

lemma blank_program: "series (strip_columns sheet_blank_row) ''Program'' =
     [Text ''Quran Classes'', NaN, Text ''Youth Circle'']"
  by code_simp

lemma blank_rows: "length (rows sheet_blank_row) = 3"
  by (simp add: sheet_blank_row_def)





lemma quran_header: "header_ok sheet_quran"
  by code_simp

lemma quran_rows: "length (rows sheet_quran) = 2"
  by (simp add: sheet_quran_def)

lemma locations_header: "header_ok sheet_locations"
  by code_simp

lemma locations_columns: "columns (strip_columns sheet_locations) = [''Location'', ''Location Name'']"
  by code_simp

lemma locations_name: "series (strip_columns sheet_locations) ''Location Name'' = [Text ''X'']"
  by code_simp

lemma locations_rows: "length (rows sheet_locations) = 1"
  by (simp add: sheet_locations_def)

lemma location_center_header: "header_ok sheet_location_center"
  by code_simp

lemma location_center_columns:
  "columns (strip_columns sheet_location_center) = [''Center'', ''Location'']"
  by code_simp

lemma location_center_location:
  "series (strip_columns sheet_location_center) ''Location'' = [Text ''Y'']"
  by code_simp

lemma location_center_rows: "length (rows sheet_location_center) = 1"
  by (simp add: sheet_location_center_def)

lemma center_header: "header_ok sheet_center"
  by code_simp

lemma center_columns: "columns (strip_columns sheet_center) = [''Center'', ''Program'']"
  by code_simp

lemma center_center: "series (strip_columns sheet_center) ''Center'' = [Text ''Z'']"
  by code_simp

lemma center_program: "series (strip_columns sheet_center) ''Program'' = [Text ''Youth Circle'']"
  by code_simp

lemma center_rows: "length (rows sheet_center) = 1"
  by (simp add: sheet_center_def)

lemma padded_header: "header_ok sheet_padded"
  by code_simp

lemma padded_columns: "columns (strip_columns sheet_padded) = [''Program'', ''Participants'']"
  by code_simp

lemma padded_participants: "series (strip_columns sheet_padded) ''Participants'' = [Number 10]"
  by code_simp

lemma padded_rows: "length (rows sheet_padded) = 1"
  by (simp add: sheet_padded_def)

lemma replicate_4: "replicate 4 x = [x, x, x, x]"
  by (simp add: numeral_eq_Suc)


section \<open>The claims about loading\<close>

text \<open>
  C5. The centre is resolved in the order Location Name, Location, Center. For every sheet
  the loader returns one record for each row, in the order of the sheet, and the centre of
  each record is the cell of its row under Location Name when the sheet has that column,
  whether or not it has a column Location besides; else the cell under Location when the
  sheet has that column; else the cell under Center; and the constant ICCO when it has none
  of the three.
\<close>

theorem centre_priority:
  assumes "header_ok raw"
  shows "\<exists>df ns. load_all_centers_data pd (Sheet raw) = Inr (df, ns) \<and>
           length (rows df) = length (rows raw) \<and>
           series df ''Centre'' =
             (if ''Location Name'' \<in> set (columns (strip_columns raw))
              then series (strip_columns raw) ''Location Name''
              else if ''Location'' \<in> set (columns (strip_columns raw))
              then series (strip_columns raw) ''Location''
              else if ''Center'' \<in> set (columns (strip_columns raw))
              then series (strip_columns raw) ''Center''
              else replicate (length (rows raw)) (Text ''ICCO''))"
  by (simp add: load_sheet [OF assms] length_rows_normalize series_normalize_centre_eq)

theorem centre_priority_witness:
  "header_ok sheet_locations \<and> header_ok sheet_location_center \<and>
   header_ok sheet_center \<and> header_ok sheet_ratings \<and>
   columns (strip_columns sheet_locations) = [''Location'', ''Location Name''] \<and>
   (\<exists>df ns. load_all_centers_data plain_pandas (Sheet sheet_locations) = Inr (df, ns) \<and>
      length (rows df) = 1 \<and> series df ''Centre'' = [Text ''X'']) \<and>
   columns (strip_columns sheet_location_center) = [''Center'', ''Location''] \<and>
   (\<exists>df ns. load_all_centers_data plain_pandas (Sheet sheet_location_center) = Inr (df, ns) \<and>
      length (rows df) = 1 \<and> series df ''Centre'' = [Text ''Y'']) \<and>
   columns (strip_columns sheet_center) = [''Center'', ''Program''] \<and>
   (\<exists>df ns. load_all_centers_data plain_pandas (Sheet sheet_center) = Inr (df, ns) \<and>
      length (rows df) = 1 \<and> series df ''Centre'' = [Text ''Z'']) \<and>
   columns (strip_columns sheet_ratings) = [''Program'', ''Satisfaction''] \<and>
   (\<exists>df ns. load_all_centers_data plain_pandas (Sheet sheet_ratings) = Inr (df, ns) \<and>
      length (rows df) = 4 \<and>
      series df ''Centre'' = [Text ''ICCO'', Text ''ICCO'', Text ''ICCO'', Text ''ICCO''])"
proof -
  have a: "\<exists>df ns. load_all_centers_data plain_pandas (Sheet sheet_locations) = Inr (df, ns) \<and>
      length (rows df) = 1 \<and> series df ''Centre'' = [Text ''X'']"
    using centre_priority [OF locations_header, of plain_pandas]
    by (simp add: locations_columns locations_name locations_rows)
  have b: "\<exists>df ns. load_all_centers_data plain_pandas (Sheet sheet_location_center) = Inr (df, ns) \<and>
      length (rows df) = 1 \<and> series df ''Centre'' = [Text ''Y'']"
    using centre_priority [OF location_center_header, of plain_pandas]
    by (simp add: location_center_columns location_center_location location_center_rows)
  have c: "\<exists>df ns. load_all_centers_data plain_pandas (Sheet sheet_center) = Inr (df, ns) \<and>
      length (rows df) = 1 \<and> series df ''Centre'' = [Text ''Z'']"
    using centre_priority [OF center_header, of plain_pandas]
    by (simp add: center_columns center_center center_rows)
  have d: "\<exists>df ns. load_all_centers_data plain_pandas (Sheet sheet_ratings) = Inr (df, ns) \<and>
      length (rows df) = 4 \<and>
      series df ''Centre'' = [Text ''ICCO'', Text ''ICCO'', Text ''ICCO'', Text ''ICCO'']"
    using centre_priority [OF ratings_header, of plain_pandas]
    by (simp add: ratings_columns ratings_rows replicate_4)
  from a b c d show ?thesis
    by (simp add: locations_header location_center_header center_header ratings_header
        locations_columns location_center_columns center_columns ratings_columns)
qed

text \<open>
  C1, as the code has it. For a sheet with a column Satisfaction, the satisfaction of each
  record is the number that \<^verbatim>\<open>pd.to_numeric\<close> reads in the cell of its row, and 4
  where the cell is empty or reads as no number. A number is kept as it is, whether or not
  it lies between 1 and 5: the loader has no check of the scale.
\<close>

theorem satisfaction_default:
  assumes "header_ok raw" and "''Satisfaction'' \<in> set (columns (strip_columns raw))"
  shows "\<exists>df ns. load_all_centers_data pd (Sheet raw) = Inr (df, ns) \<and>
           length (rows df) = length (rows raw) \<and>
           series df ''Satisfaction'' =
             map (\<lambda>c. case to_numeric pd c of Number x \<Rightarrow> Number x | _ \<Rightarrow> Number 4)
               (series (strip_columns raw) ''Satisfaction'')"
  using assms(2)
  by (simp add: load_sheet [OF assms(1)] length_rows_normalize series_normalize_satisfaction_eq
      filled_numeric)

theorem satisfaction_default_witness:
  "header_ok sheet_ratings \<and> ''Satisfaction'' \<in> set (columns (strip_columns sheet_ratings)) \<and>
   (\<exists>df ns. load_all_centers_data plain_pandas (Sheet sheet_ratings) = Inr (df, ns) \<and>
      length (rows df) = 4 \<and>
      series df ''Satisfaction'' = [Number 7, Number 4, Number 4, Number 0])"
proof -
  have c: "''Satisfaction'' \<in> set (columns (strip_columns sheet_ratings))"
    by (simp add: ratings_columns)
  from satisfaction_default [OF ratings_header c, of plain_pandas]
  show ?thesis
    by (simp add: ratings_header ratings_columns ratings_satisfaction ratings_rows
        plain_not_a_number to_numeric_simps)
qed

text \<open>
  C1, as the claim states it, fails: the ratings 7 and 0 lie outside of the scale from 1
  to 5, and the loader keeps them; only the text and the empty cell become 4.
\<close>

theorem satisfaction_out_of_scale:
  "load_all_centers_data plain_pandas (Sheet sheet_ratings) =
     Inr (normalize_table plain_pandas sheet_ratings, [SuccessMsg 4 1]) \<and>
   series (strip_columns sheet_ratings) ''Satisfaction'' = [Number 7, Text ''n/a'', NaN, Number 0] \<and>
   series (normalize_table plain_pandas sheet_ratings) ''Satisfaction'' =
     [Number 7, Number 4, Number 4, Number 0]"
  by (simp add: load_sheet [OF ratings_header] series_normalize_centre_eq
      series_normalize_satisfaction_eq ratings_columns ratings_satisfaction ratings_rows plain_not_a_number to_numeric_simps
      fillna_def length_remdups_replicate)

text \<open>
  C6, as the code has it. The participants of each record are a number: 1 for every record
  when the sheet has no column that is named Participants after trimming; else the number
  that \<^verbatim>\<open>pd.to_numeric\<close> reads in the cell of its row, and 1 where the cell is empty
  or reads as no number. A number is kept as it is, negative or fractional: the loader
  checks neither.
\<close>

theorem participants_default:
  assumes "header_ok raw"
  shows "\<exists>df ns. load_all_centers_data pd (Sheet raw) = Inr (df, ns) \<and>
           length (rows df) = length (rows raw) \<and>
           list_all is_number (series df ''Participants'') \<and>
           series df ''Participants'' =
             (if ''Participants'' \<notin> set (columns (strip_columns raw))
              then replicate (length (rows raw)) (Number 1)
              else map (\<lambda>c. case to_numeric pd c of Number x \<Rightarrow> Number x | _ \<Rightarrow> Number 1)
                     (series (strip_columns raw) ''Participants''))"
proof -
  let ?df = "normalize_table pd raw"
  have "series ?df ''Participants'' =
          (if ''Participants'' \<notin> set (columns (strip_columns raw))
           then replicate (length (rows raw)) (Number 1)
           else map (\<lambda>c. case to_numeric pd c of Number x \<Rightarrow> Number x | _ \<Rightarrow> Number 1)
                  (series (strip_columns raw) ''Participants''))"
    by (simp add: series_normalize_participants_eq filled_numeric)
  moreover have "list_all is_number (series ?df ''Participants'')"
    by (rule normalize_numbers)
  moreover have "length (rows ?df) = length (rows raw)"
    by (rule length_rows_normalize)
  ultimately show ?thesis
    unfolding load_sheet [OF assms] by blast
qed

theorem participants_default_witness:
  "header_ok sheet_counts \<and> header_ok sheet_ratings \<and> header_ok sheet_padded \<and>
   columns sheet_padded = [''Program'', ''Participants'' @ [CHR 0xC2, CHR 0xA0]] \<and>
   (\<exists>df ns. load_all_centers_data plain_pandas (Sheet sheet_padded) = Inr (df, ns) \<and>
      length (rows df) = 1 \<and> series df ''Participants'' = [Number 10]) \<and>
   (\<exists>df ns. load_all_centers_data plain_pandas (Sheet sheet_counts) = Inr (df, ns) \<and>
      length (rows df) = 4 \<and>
      series df ''Participants'' = [Number (- 3), Number (5 / 2), Number 1, Number 1]) \<and>
   (\<exists>df ns. load_all_centers_data plain_pandas (Sheet sheet_ratings) = Inr (df, ns) \<and>
      length (rows df) = 4 \<and>
      series df ''Participants'' = [Number 1, Number 1, Number 1, Number 1])"
proof -
  have r4: "replicate 4 (Number 1) = [Number 1, Number 1, Number 1, Number 1]"
    by (simp add: numeral_eq_Suc)
  have a: "\<exists>df ns. load_all_centers_data plain_pandas (Sheet sheet_counts) = Inr (df, ns) \<and>
      length (rows df) = 4 \<and>
      series df ''Participants'' = [Number (- 3), Number (5 / 2), Number 1, Number 1]"
    using participants_default [OF counts_header, of plain_pandas]
    by (auto simp: counts_columns counts_participants counts_rows plain_many to_numeric_simps)
  have b: "\<exists>df ns. load_all_centers_data plain_pandas (Sheet sheet_ratings) = Inr (df, ns) \<and>
      length (rows df) = 4 \<and>
      series df ''Participants'' = [Number 1, Number 1, Number 1, Number 1]"
    using participants_default [OF ratings_header, of plain_pandas]
    by (auto simp: ratings_columns ratings_rows r4)
  have c: "\<exists>df ns. load_all_centers_data plain_pandas (Sheet sheet_padded) = Inr (df, ns) \<and>
      length (rows df) = 1 \<and> series df ''Participants'' = [Number 10]"
    using participants_default [OF padded_header, of plain_pandas]
    by (auto simp: padded_columns padded_participants padded_rows to_numeric_simps)
  have p: "columns sheet_padded = [''Program'', ''Participants'' @ [CHR 0xC2, CHR 0xA0]]"
    by (simp add: sheet_padded_def)
  from a b c show ?thesis
    by (simp add: counts_header ratings_header padded_header p)
qed

text \<open>
  C6, as the claim states it, fails: a head count of -3 and one of 5/2 are loaded as they
  are, and neither is a non-negative integer.
\<close>

theorem participants_negative_or_fractional:
  "load_all_centers_data plain_pandas (Sheet sheet_counts) =
     Inr (normalize_table plain_pandas sheet_counts, [SuccessMsg 4 1]) \<and>
   series (normalize_table plain_pandas sheet_counts) ''Participants'' =
     [Number (- 3), Number (5 / 2), Number 1, Number 1] \<and>
   \<not> (0::rat) \<le> - 3 \<and> (5 / 2 :: rat) \<notin> \<int>"
proof -
  have "(5 / 2 :: rat) \<notin> \<int>"
  proof
    assume "(5 / 2 :: rat) \<in> \<int>"
    then obtain k :: int where "(5 / 2 :: rat) = of_int k" by (auto elim: Ints_cases)
    then have "(5 :: rat) = of_int (2 * k)" by simp
    then have "(of_int 5 :: rat) = of_int (2 * k)" by simp
    then have "(5 :: int) = 2 * k" by (simp only: of_int_eq_iff)
    then show False by presburger
  qed
  then show ?thesis
    by (simp add: load_sheet [OF counts_header] series_normalize_centre_eq
      series_normalize_participants_eq counts_columns counts_participants counts_rows plain_many to_numeric_simps
      fillna_def length_remdups_replicate)
qed

text \<open>
  C3, as the code has it. For a sheet with a header of distinct names, every record has the
  five columns, and its participants and its satisfaction are numbers. Its centre, program and category are the constant of the loader
  when the sheet has none of the columns they are resolved from, and else the cell of its
  row under the first such column, copied as it is: they are missing exactly where that
  cell is empty.
\<close>

theorem record_fields:
  assumes "header_ok raw"
  shows "\<exists>df ns. load_all_centers_data pd (Sheet raw) = Inr (df, ns) \<and>
           length (rows df) = length (rows raw) \<and>
           list_all (\<lambda>name. name \<in> set (columns df))
             [''Centre'', ''Program'', ''Participants'', ''Satisfaction'', ''Category''] \<and>
           list_all is_number (series df ''Participants'') \<and>
           list_all is_number (series df ''Satisfaction'') \<and>
           series df ''Centre'' =
             (if ''Location Name'' \<in> set (columns (strip_columns raw)) then series (strip_columns raw) ''Location Name''
              else if ''Location'' \<in> set (columns (strip_columns raw)) then series (strip_columns raw) ''Location''
              else if ''Center'' \<in> set (columns (strip_columns raw)) then series (strip_columns raw) ''Center''
              else replicate (length (rows raw)) (Text ''ICCO'')) \<and>
           series df ''Program'' =
             (if ''Program Name'' \<in> set (columns (strip_columns raw)) then series (strip_columns raw) ''Program Name''
              else if ''Course Name'' \<in> set (columns (strip_columns raw)) then series (strip_columns raw) ''Course Name''
              else if ''Program'' \<notin> set (columns (strip_columns raw)) then replicate (length (rows raw)) (Text ''Program'')
              else series (strip_columns raw) ''Program'') \<and>
           series df ''Category'' =
             (if ''Target Audience'' \<in> set (columns (strip_columns raw)) then series (strip_columns raw) ''Target Audience''
              else if ''Category'' \<notin> set (columns (strip_columns raw)) then replicate (length (rows raw)) (Text ''General'')
              else series (strip_columns raw) ''Category'')"
proof -
  let ?df = "normalize_table pd raw"
  have "canonical ?df"
    by (rule canonical_normalize_table)
  then have "list_all (\<lambda>name. name \<in> set (columns ?df))
               [''Centre'', ''Program'', ''Participants'', ''Satisfaction'', ''Category''] \<and>
             list_all is_number (series ?df ''Participants'') \<and>
             list_all is_number (series ?df ''Satisfaction'')"
    unfolding canonical_def .
  moreover have "length (rows ?df) = length (rows raw)"
    by (rule length_rows_normalize)
  moreover note series_normalize_centre_eq [of pd raw] series_normalize_program_eq [of pd raw]
    series_normalize_category_eq [of pd raw]
  ultimately show ?thesis
    unfolding load_sheet [OF assms] by blast
qed

theorem record_fields_witness:
  "header_ok sheet_audience \<and> header_ok sheet_center \<and>
   (\<exists>df ns. load_all_centers_data plain_pandas (Sheet sheet_audience) = Inr (df, ns) \<and>
      length (rows df) = 1 \<and>
      list_all is_number (series df ''Participants'') \<and>
      list_all is_number (series df ''Satisfaction'') \<and>
      series df ''Centre'' = [Text ''ICCO''] \<and>
      series df ''Program'' = [Text ''Youth Circle''] \<and>
      series df ''Category'' = [NaN]) \<and>
   (\<exists>df ns. load_all_centers_data plain_pandas (Sheet sheet_center) = Inr (df, ns) \<and>
      length (rows df) = 1 \<and>
      list_all is_number (series df ''Participants'') \<and>
      list_all is_number (series df ''Satisfaction'') \<and>
      series df ''Centre'' = [Text ''Z''] \<and>
      series df ''Program'' = [Text ''Youth Circle''] \<and>
      series df ''Category'' = [Text ''General''])"
proof -
  have a: "\<exists>df ns. load_all_centers_data plain_pandas (Sheet sheet_audience) = Inr (df, ns) \<and>
      length (rows df) = 1 \<and>
      list_all is_number (series df ''Participants'') \<and>
      list_all is_number (series df ''Satisfaction'') \<and>
      series df ''Centre'' = [Text ''ICCO''] \<and>
      series df ''Program'' = [Text ''Youth Circle''] \<and>
      series df ''Category'' = [NaN]"
    using record_fields [OF audience_header, of plain_pandas]
    by (auto simp: audience_columns audience_program audience_target audience_rows)
  have b: "\<exists>df ns. load_all_centers_data plain_pandas (Sheet sheet_center) = Inr (df, ns) \<and>
      length (rows df) = 1 \<and>
      list_all is_number (series df ''Participants'') \<and>
      list_all is_number (series df ''Satisfaction'') \<and>
      series df ''Centre'' = [Text ''Z''] \<and>
      series df ''Program'' = [Text ''Youth Circle''] \<and>
      series df ''Category'' = [Text ''General'']"
    using record_fields [OF center_header, of plain_pandas]
    by (auto simp: center_columns center_center center_program center_rows)
  from a b show ?thesis
    by (simp add: audience_header center_header)
qed

text \<open>
  C3, as the claim states it, fails: the row of this sheet has an empty cell under Target
  Audience, and the category of its record is missing.
\<close>

theorem category_missing:
  "load_all_centers_data plain_pandas (Sheet sheet_audience) =
     Inr (normalize_table plain_pandas sheet_audience, [SuccessMsg 1 1]) \<and>
   series (normalize_table plain_pandas sheet_audience) ''Category'' = [NaN]"
  by (simp add: load_sheet [OF audience_header] series_normalize_centre_eq
      series_normalize_category_eq audience_columns audience_target audience_rows)

text \<open>
  C2. The second row of this sheet is blank, and the loader returns a record for it: its
  centre and its program are missing, its participants are 1, its satisfaction is 4 and its
  category is General. The empty rows are removed after the defaults are filled in, when no
  row is empty any more, so no row is ever removed (\<open>length_rows_normalize\<close>).
\<close>

theorem blank_row_kept:
  "list_all (\<lambda>name. (rows sheet_blank_row ! 1) name = NaN) (columns sheet_blank_row) \<and>
   load_all_centers_data plain_pandas (Sheet sheet_blank_row) =
     Inr (normalize_table plain_pandas sheet_blank_row, [SuccessMsg 3 2]) \<and>
   series (normalize_table plain_pandas sheet_blank_row) ''Centre'' = [Text ''A'', NaN, Text ''A''] \<and>
   series (normalize_table plain_pandas sheet_blank_row) ''Program'' =
     [Text ''Quran Classes'', NaN, Text ''Youth Circle''] \<and>
   series (normalize_table plain_pandas sheet_blank_row) ''Participants'' =
     [Number 1, Number 1, Number 1] \<and>
   series (normalize_table plain_pandas sheet_blank_row) ''Satisfaction'' =
     [Number 4, Number 4, Number 4] \<and>
   series (normalize_table plain_pandas sheet_blank_row) ''Category'' =
     [Text ''General'', Text ''General'', Text ''General'']"
proof -
  have "list_all (\<lambda>name. (rows sheet_blank_row ! 1) name = NaN) (columns sheet_blank_row)"
    by (simp add: sheet_blank_row_def row_of_def)
  then show ?thesis
    by (simp add: load_sheet [OF blank_header] series_normalize_centre_eq
        series_normalize_program_eq series_normalize_participants_eq series_normalize_satisfaction_eq
        series_normalize_category_eq blank_columns blank_location blank_program blank_rows
        numeral_3_eq_3)
qed

text \<open>
  C8, as the code has it. When the file is missing or cannot be parsed,
  \<^verbatim>\<open>load_all_centers_data\<close> of center_database_v2.py raises nothing: it shows an error
  and returns the empty frame. \<^verbatim>\<open>load_center_data\<close> of center_database.py does
  otherwise: for a missing file it shows a warning and returns the 500 generated sample
  rows, and the exception of a file that cannot be parsed leaves it.
\<close>

theorem load_failures:
  "load_all_centers_data pd FileMissing =
     Inr (empty_frame, [ErrorMsg (''File not found: '' @ DATA_PATH),
                        InfoMsg (''Place your Excel file in: '' @ DATA_PATH)]) \<and>
   load_all_centers_data pd (Unreadable e) =
     Inr (empty_frame, [ErrorMsg (''Error loading file: '' @ e)]) \<and>
   df_empty empty_frame \<and>
   load_center_data drawn center_name FileMissing =
     Inr (generate_sample_center_data drawn center_name,
          [WarningMsg (''Excel file for '' @ center_name @ '' not found. Using sample data for demo.'')]) \<and>
   length (rows (generate_sample_center_data drawn center_name)) = 500 \<and>
   load_center_data drawn center_name (Unreadable e) = Inl (ReadError e)"
  by (simp add: load_all_centers_data_def load_center_data_def df_empty_def empty_frame_def
      length_generate_sample)

text \<open>
  C8, as the claim states it, fails for \<^verbatim>\<open>load_center_data\<close>: with no file for the
  centre it returns sample data, which is not the empty dataset, and shows a warning, not an
  error; a file that is no workbook makes it raise.
\<close>

theorem sample_data_substituted:
  "load_center_data demo_draws ''Downtown'' FileMissing =
     Inr (generate_sample_center_data demo_draws ''Downtown'',
          [WarningMsg ''Excel file for Downtown not found. Using sample data for demo.'']) \<and>
   length (rows (generate_sample_center_data demo_draws ''Downtown'')) = 500 \<and>
   \<not> df_empty (generate_sample_center_data demo_draws ''Downtown'') \<and>
   load_center_data demo_draws ''Downtown'' (Unreadable ''File is not a zip file'') =
     Inl (ReadError ''File is not a zip file'')"
  by (simp add: load_center_data_def length_generate_sample generate_sample_not_empty)

section \<open>The claims about the analysis\<close>



text \<open>
  C9, as the claim states it, fails in its count: the aggregation is a sum and a mean. The
  program Quran Classes has two records, and the row of the table for it holds the program,
  the sum 11 and the mean 9/2; the count 2 is not in it.
\<close>

theorem ranking_without_count:
  "program_perf plain_pandas records_demo =
     Inr [\<lparr>g_key = Text ''Youth Circle'', g_participants = 30, g_satisfaction = Number 3\<rparr>,
          \<lparr>g_key = Text ''Sisters Halaqa'', g_participants = 20, g_satisfaction = Number 5\<rparr>,
          \<lparr>g_key = Text ''Quran Classes'', g_participants = 11, g_satisfaction = Number (9 / 2)\<rparr>] \<and>
   count_list (series records_demo ''Program'') (Text ''Quran Classes'') = 2 \<and>
   table_row \<lparr>g_key = Text ''Quran Classes'', g_participants = 11, g_satisfaction = Number (9 / 2)\<rparr> =
     [Text ''Quran Classes'', Number 11, Number (9 / 2)] \<and>
   Number 2 \<notin> set (table_row \<lparr>g_key = Text ''Quran Classes'', g_participants = 11,
                                g_satisfaction = Number (9 / 2)\<rparr>)"
  by code_simp









section \<open>Further properties\<close>

text \<open>
  The loader never removes a row: for every sheet with a header of distinct names it
  returns as many records as the sheet has rows.
\<close>

theorem loading_keeps_rows:
  assumes "header_ok raw"
  shows "\<exists>df ns. load_all_centers_data pd (Sheet raw) = Inr (df, ns) \<and>
           length (rows df) = length (rows raw) \<and>
           ns = [SuccessMsg (length (rows raw)) (length (remdups (series df ''Centre'')))]"
  by (simp add: load_sheet [OF assms] length_rows_normalize)

theorem loading_keeps_rows_witness:
  "header_ok sheet_blank_row \<and>
   (\<exists>df ns. load_all_centers_data plain_pandas (Sheet sheet_blank_row) = Inr (df, ns) \<and>
      length (rows df) = 3 \<and>
      ns = [SuccessMsg 3 (length (remdups (series df ''Centre'')))])"
  using loading_keeps_rows [OF blank_header, of plain_pandas]
  by (simp add: blank_header blank_rows)

text \<open>
  The end-to-end example of the specification: the two rows are loaded as two records of
  the centre A and the program Quran Classes, the second with 1 participant and the
  satisfaction 4; the program is counted twice, with 11 participants and the mean
  satisfaction 4.5.
\<close>

theorem end_to_end_example:
  "series (normalize_table plain_pandas sheet_quran) ''Centre'' = [Text ''A'', Text ''A''] \<and>
   series (normalize_table plain_pandas sheet_quran) ''Program'' =
     [Text ''Quran Classes'', Text ''Quran Classes''] \<and>
   series (normalize_table plain_pandas sheet_quran) ''Participants'' = [Number 10, Number 1] \<and>
   series (normalize_table plain_pandas sheet_quran) ''Satisfaction'' = [Number 5, Number 4] \<and>
   create_program_distribution plain_pandas (normalize_table plain_pandas sheet_quran) =
     Inr [(Text ''Quran Classes'', 2)] \<and>
   program_perf plain_pandas (normalize_table plain_pandas sheet_quran) =
     Inr [\<lparr>g_key = Text ''Quran Classes'', g_participants = 11, g_satisfaction = Number (9 / 2)\<rparr>]"
  by code_simp

text \<open>
  What the body of the \<^verbatim>\<open>try\<close> block raises on a sheet is caught: the loader shows an
  error and returns the empty frame. This is so for a sheet without any cell, and for a
  sheet with two columns that are both named Location after trimming.
\<close>

theorem loading_failure_caught:
  assumes "normalize_raises raw = Some e"
  shows "load_all_centers_data pd (Sheet raw) =
           Inr (empty_frame, [ErrorMsg (''Error loading file: '' @ exception_text pd e)])"
  using assms by (simp add: load_all_centers_data_def)

theorem loading_failure_caught_witness:
  "normalize_raises sheet_no_cells = Some AttributeError \<and>
   normalize_raises sheet_colliding = Some ValueError \<and>
   load_all_centers_data plain_pandas (Sheet sheet_no_cells) =
     Inr (empty_frame,
          [ErrorMsg (''Error loading file: '' @ exception_text plain_pandas AttributeError)]) \<and>
   load_all_centers_data plain_pandas (Sheet sheet_colliding) =
     Inr (empty_frame,
          [ErrorMsg (''Error loading file: '' @ exception_text plain_pandas ValueError)])"
proof -
  have a: "normalize_raises sheet_no_cells = Some AttributeError"
    by code_simp
  have b: "normalize_raises sheet_colliding = Some ValueError"
    by code_simp
  from a b loading_failure_caught [OF a, of plain_pandas]
    loading_failure_caught [OF b, of plain_pandas]
  show ?thesis by (intro conjI)
qed

end
